theory Spec2Isabelle
  imports Complex_Main
begin

section \<open>Kinetic engine: data model\<close>

text \<open>
  Shallow embedding of \<^verbatim>\<open>src/services/KineticEngine.ts\<close>. JavaScript numbers are
  modelled as the reals (finite values, exact arithmetic), except where a claim turns on
  a non-finite number or on rounding: the adopted BPM, the beat duration and the beat
  position are \<open>jsnum\<close> values (a real, an infinity or NaN), and the transient
  detector is written over an arbitrary arithmetic. \<^verbatim>\<open>Date.now()\<close> and
  \<^verbatim>\<open>Math.random()\<close> are explicit parameters \<open>now\<close> and \<open>rnd\<close> of the operations
  that read them. Enum constructors carry a prefix, since several literals of the
  source (\<^verbatim>\<open>'hands'\<close>, \<^verbatim>\<open>'feet'\<close>, \<^verbatim>\<open>'closeup'\<close>, \<^verbatim>\<open>'mid'\<close>, \<^verbatim>\<open>'high'\<close>) name both a
  node, a frame type, a pool field or a parameter.
\<close>

section \<open>JavaScript numbers with infinities and NaN\<close>

text \<open>
  A JavaScript number that may be non-finite. The operations follow the language
  definition on NaN, the infinities and zero divisors, and are exact on finite values.
  The sign of a zero is not represented: a zero divisor counts as \<open>+0\<close>.
\<close>

datatype jsnum = Fin real | PosInf | NegInf | NaN

fun n_neg :: "jsnum \<Rightarrow> jsnum" where
  "n_neg (Fin x) = Fin (- x)"
| "n_neg PosInf = NegInf"
| "n_neg NegInf = PosInf"
| "n_neg NaN = NaN"

fun n_add :: "jsnum \<Rightarrow> jsnum \<Rightarrow> jsnum" where
  "n_add NaN b = NaN"
| "n_add a NaN = NaN"
| "n_add (Fin x) (Fin y) = Fin (x + y)"
| "n_add PosInf NegInf = NaN"
| "n_add NegInf PosInf = NaN"
| "n_add (Fin x) b = b"
| "n_add a b = a"

definition n_sub :: "jsnum \<Rightarrow> jsnum \<Rightarrow> jsnum" where
  "n_sub a b = n_add a (n_neg b)"

fun n_mul :: "jsnum \<Rightarrow> jsnum \<Rightarrow> jsnum" where
  "n_mul NaN b = NaN"
| "n_mul a NaN = NaN"
| "n_mul (Fin x) (Fin y) = Fin (x * y)"
| "n_mul (Fin x) b = (if x = 0 then NaN else if 0 < x then b else n_neg b)"
| "n_mul a (Fin y) = (if y = 0 then NaN else if 0 < y then a else n_neg a)"
| "n_mul a b = (if a = b then PosInf else NegInf)"

fun n_div :: "jsnum \<Rightarrow> jsnum \<Rightarrow> jsnum" where
  "n_div NaN b = NaN"
| "n_div a NaN = NaN"
| "n_div (Fin x) (Fin y) =
     (if y = 0 then (if 0 < x then PosInf else if x < 0 then NegInf else NaN)
      else Fin (x / y))"
| "n_div (Fin x) b = Fin 0"
| "n_div a (Fin y) = (if 0 \<le> y then a else n_neg a)"
| "n_div a b = NaN"

text \<open>The remainder \<^verbatim>\<open>x % y\<close> truncates the quotient towards zero.\<close>

definition js_trunc :: "real \<Rightarrow> int" where
  "js_trunc q = (if 0 \<le> q then \<lfloor>q\<rfloor> else \<lceil>q\<rceil>)"

fun n_rem :: "jsnum \<Rightarrow> jsnum \<Rightarrow> jsnum" where
  "n_rem NaN b = NaN"
| "n_rem a NaN = NaN"
| "n_rem (Fin x) (Fin y) = (if y = 0 then NaN else Fin (x - y * of_int (js_trunc (x / y))))"
| "n_rem (Fin x) b = Fin x"
| "n_rem a b = NaN"

fun n_gt :: "jsnum \<Rightarrow> jsnum \<Rightarrow> bool" where
  "n_gt NaN b = False"
| "n_gt a NaN = False"
| "n_gt (Fin x) (Fin y) = (y < x)"
| "n_gt PosInf b = (b \<noteq> PosInf)"
| "n_gt a NegInf = (a \<noteq> NegInf)"
| "n_gt a b = False"

definition n_lt :: "jsnum \<Rightarrow> jsnum \<Rightarrow> bool" where
  "n_lt a b = n_gt b a"

text \<open>\<^verbatim>\<open>Math.max(a, b)\<close> and \<^verbatim>\<open>Math.min(a, b)\<close>: NaN when either argument is NaN.\<close>

definition n_max :: "jsnum \<Rightarrow> jsnum \<Rightarrow> jsnum" where
  "n_max a b = (if a = NaN \<or> b = NaN then NaN else if n_gt a b then a else b)"

definition n_min :: "jsnum \<Rightarrow> jsnum \<Rightarrow> jsnum" where
  "n_min a b = (if a = NaN \<or> b = NaN then NaN else if n_lt a b then a else b)"

subsection \<open>An arithmetic as a parameter\<close>

text \<open>
  The operations of JavaScript numbers that the transient detector uses, over a type
  \<open>'n\<close> of numbers: the number a literal denotes, addition, subtraction, division and
  the comparison \<^verbatim>\<open>a > b\<close>. The detector is defined for any such arithmetic, so what is
  proved of it for all arithmetics holds of IEEE double arithmetic, whose rounding is not
  modelled here. \<open>exact_arith\<close> is the arithmetic of \<open>jsnum\<close>.
\<close>

record 'n js_arith =
  js_lit :: "real \<Rightarrow> 'n"
  js_add :: "'n \<Rightarrow> 'n \<Rightarrow> 'n"
  js_sub :: "'n \<Rightarrow> 'n \<Rightarrow> 'n"
  js_div :: "'n \<Rightarrow> 'n \<Rightarrow> 'n"
  js_gt :: "'n \<Rightarrow> 'n \<Rightarrow> bool"

definition exact_arith :: "jsnum js_arith" where
  "exact_arith =
     \<lparr> js_lit = Fin, js_add = n_add, js_sub = n_sub, js_div = n_div, js_gt = n_gt \<rparr>"

text \<open>\<^verbatim>\<open>xs.reduce((a, b) => a + b, 0)\<close> in an arithmetic.\<close>

definition reduce_js :: "'n js_arith \<Rightarrow> 'n list \<Rightarrow> 'n" where
  "reduce_js ar xs = foldl (js_add ar) (js_lit ar 0) xs"

section \<open>Types of the engine\<close>

datatype KineticNodeId =
    N_idle | N_groove_left | N_groove_right | N_groove_center | N_crouch | N_jump
  | N_spin | N_vogue_left | N_vogue_right | N_closeup | N_hands | N_feet
  | N_impact | N_mandala

datatype MechanicalFX = FX_none | FX_zoom | FX_mirror | FX_stutter | FX_mandala

datatype TransitionStyle = CUT | SLIDE | MORPH | SMOOTH | ZOOM_IN

text \<open>
  Modelled from the spec: the module \<^verbatim>\<open>../types\<close>, which declares \<^verbatim>\<open>SequenceMode\<close>,
  \<^verbatim>\<open>EnergyLevel\<close>, \<^verbatim>\<open>MoveDirection\<close> and \<^verbatim>\<open>GeneratedFrame\<close>, is not among the sources.
  The enumerations have the values the engine compares against and the specification
  lists. The fields of a frame are the ones \<^verbatim>\<open>loadFramePool\<close> reads; those it treats as
  optional (\<^verbatim>\<open>frame.energy && ...\<close>, \<^verbatim>\<open>frame.direction || 'center'\<close>) are options.
\<close>

datatype SequenceMode = GROOVE | EMOTE | IMPACT | FOOTWORK

datatype EnergyLevel = E_low | E_mid | E_high

datatype MoveDirection = D_left | D_right | D_center

datatype FrameType = T_body | T_closeup | T_hands | T_feet

datatype FrameRole = R_base | R_alt | R_flourish | R_details

record GeneratedFrame =
  url :: string
  pose :: string
  energy :: "EnergyLevel option"
  direction :: "MoveDirection option"
  frame_type :: "FrameType option"
  role :: "FrameRole option"
  isVirtual :: bool

record KineticFramePool =
  byEnergy :: "EnergyLevel \<Rightarrow> GeneratedFrame list"
  closeups :: "GeneratedFrame list"
  hands :: "GeneratedFrame list"
  feet :: "GeneratedFrame list"
  mandalas :: "GeneratedFrame list"
  virtuals :: "GeneratedFrame list"
  acrobatics :: "GeneratedFrame list"
  byDirection :: "MoveDirection \<Rightarrow> GeneratedFrame list"

record AudioSample =
  s_bass :: real
  s_mid :: real
  s_high :: real
  s_energy :: real
  s_timestamp :: real

record KineticState =
  currentNode :: KineticNodeId
  currentFrame :: "GeneratedFrame option"
  transitionProgress :: real
  transitionStyle :: TransitionStyle
  sourceFrame :: "GeneratedFrame option"
  beatPos :: jsnum
  barCounter :: nat
  phraseCounter :: nat
  lastTransitionTime :: real
  isLocked :: bool
  lockReleaseTime :: real
  sequenceMode :: SequenceMode

record KineticNode =
  node_id :: KineticNodeId
  possibleTransitions :: "KineticNodeId list"
  energyRequirement :: real
  exitThreshold :: real
  mechanicalFx :: MechanicalFX
  preferredTransition :: TransitionStyle
  minDuration :: real
  frameSelector :: "real \<Rightarrow> KineticFramePool \<Rightarrow> GeneratedFrame option"

subsection \<open>JavaScript array reads\<close>

text \<open>\<^verbatim>\<open>xs[i]\<close> is \<^verbatim>\<open>undefined\<close> outside the array; \<^verbatim>\<open>a || b\<close> on frames takes \<open>b\<close> when
  \<open>a\<close> is \<^verbatim>\<open>undefined\<close>.\<close>

definition js_nth :: "'a list \<Rightarrow> int \<Rightarrow> 'a option" where
  "js_nth xs i = (if 0 \<le> i \<and> i < int (length xs) then Some (xs ! nat i) else None)"

definition js_or :: "'a option \<Rightarrow> 'a option \<Rightarrow> 'a option" where
  "js_or a b = (case a of Some x \<Rightarrow> Some x | None \<Rightarrow> b)"

text \<open>\<^verbatim>\<open>xs[Math.floor(Math.random() * xs.length)]\<close> with the random number \<open>rnd\<close>.\<close>

definition random_pick :: "real \<Rightarrow> 'a list \<Rightarrow> 'a option" where
  "random_pick rnd xs = js_nth xs \<lfloor>rnd * real (length xs)\<rfloor>"

text \<open>\<^verbatim>\<open>xs.push(v); if (xs.length > n) xs.shift()\<close>.\<close>

definition push_bounded :: "nat \<Rightarrow> 'a \<Rightarrow> 'a list \<Rightarrow> 'a list" where
  "push_bounded n v xs = (let ys = xs @ [v] in if length ys > n then tl ys else ys)"

text \<open>\<^verbatim>\<open>xs.reduce((a, b) => a + b, 0)\<close>.\<close>

definition reduce_sum :: "real list \<Rightarrow> real" where
  "reduce_sum xs = foldl (+) 0 xs"

section \<open>The kinetic graph\<close>

definition KINETIC_GRAPH :: "KineticNodeId \<Rightarrow> KineticNode" where
  "KINETIC_GRAPH n = (case n of
     N_idle \<Rightarrow> \<lparr> node_id = N_idle,
       possibleTransitions = [N_groove_left, N_groove_right, N_groove_center, N_crouch],
       energyRequirement = 0, exitThreshold = 0, mechanicalFx = FX_none,
       preferredTransition = SMOOTH, minDuration = 0,
       frameSelector = (\<lambda>rnd pool.
         js_or (js_nth (byEnergy pool E_low) 0) (js_or (js_nth (byEnergy pool E_mid) 0) None)) \<rparr>
   | N_groove_left \<Rightarrow> \<lparr> node_id = N_groove_left,
       possibleTransitions = [N_idle, N_groove_center, N_vogue_left, N_crouch],
       energyRequirement = 0.3, exitThreshold = 0.2, mechanicalFx = FX_none,
       preferredTransition = CUT, minDuration = 100,
       frameSelector = (\<lambda>rnd pool.
         js_or (random_pick rnd (byDirection pool D_left)) (js_nth (byEnergy pool E_mid) 0)) \<rparr>
   | N_groove_right \<Rightarrow> \<lparr> node_id = N_groove_right,
       possibleTransitions = [N_idle, N_groove_center, N_vogue_right, N_crouch],
       energyRequirement = 0.3, exitThreshold = 0.2, mechanicalFx = FX_mirror,
       preferredTransition = CUT, minDuration = 100,
       frameSelector = (\<lambda>rnd pool.
         js_or (random_pick rnd (byDirection pool D_right)) (js_nth (byEnergy pool E_mid) 0)) \<rparr>
   | N_groove_center \<Rightarrow> \<lparr> node_id = N_groove_center,
       possibleTransitions = [N_groove_left, N_groove_right, N_jump, N_spin, N_closeup],
       energyRequirement = 0.4, exitThreshold = 0.3, mechanicalFx = FX_none,
       preferredTransition = CUT, minDuration = 150,
       frameSelector = (\<lambda>rnd pool.
         js_or (random_pick rnd (byDirection pool D_center)) (js_nth (byEnergy pool E_mid) 0)) \<rparr>
   | N_crouch \<Rightarrow> \<lparr> node_id = N_crouch,
       possibleTransitions = [N_idle, N_jump, N_feet],
       energyRequirement = 0.5, exitThreshold = 0.3, mechanicalFx = FX_none,
       preferredTransition = SMOOTH, minDuration = 200,
       frameSelector = (\<lambda>rnd pool. random_pick rnd (byEnergy pool E_low)) \<rparr>
   | N_jump \<Rightarrow> \<lparr> node_id = N_jump,
       possibleTransitions = [N_crouch, N_groove_center, N_impact],
       energyRequirement = 0.7, exitThreshold = 0.5, mechanicalFx = FX_zoom,
       preferredTransition = CUT, minDuration = 100,
       frameSelector = (\<lambda>rnd pool.
         js_or (random_pick rnd (acrobatics pool)) (js_nth (byEnergy pool E_high) 0)) \<rparr>
   | N_spin \<Rightarrow> \<lparr> node_id = N_spin,
       possibleTransitions = [N_groove_center, N_jump, N_vogue_left, N_vogue_right],
       energyRequirement = 0.6, exitThreshold = 0.4, mechanicalFx = FX_none,
       preferredTransition = MORPH, minDuration = 300,
       frameSelector = (\<lambda>rnd pool.
         js_or (random_pick rnd (acrobatics pool)) (js_nth (byEnergy pool E_high) 0)) \<rparr>
   | N_vogue_left \<Rightarrow> \<lparr> node_id = N_vogue_left,
       possibleTransitions = [N_vogue_right, N_groove_left, N_hands, N_mandala],
       energyRequirement = 0.5, exitThreshold = 0.3, mechanicalFx = FX_none,
       preferredTransition = CUT, minDuration = 150,
       frameSelector = (\<lambda>rnd pool.
         js_or (random_pick rnd (hands pool)) (js_nth (byDirection pool D_left) 0)) \<rparr>
   | N_vogue_right \<Rightarrow> \<lparr> node_id = N_vogue_right,
       possibleTransitions = [N_vogue_left, N_groove_right, N_hands, N_mandala],
       energyRequirement = 0.5, exitThreshold = 0.3, mechanicalFx = FX_mirror,
       preferredTransition = CUT, minDuration = 150,
       frameSelector = (\<lambda>rnd pool.
         js_or (random_pick rnd (hands pool)) (js_nth (byDirection pool D_right) 0)) \<rparr>
   | N_closeup \<Rightarrow> \<lparr> node_id = N_closeup,
       possibleTransitions = [N_groove_center, N_idle],
       energyRequirement = 0.6, exitThreshold = 0.4, mechanicalFx = FX_zoom,
       preferredTransition = ZOOM_IN, minDuration = 500,
       frameSelector = (\<lambda>rnd pool.
         js_or (random_pick rnd (closeups pool)) (js_nth (virtuals pool) 0)) \<rparr>
   | N_hands \<Rightarrow> \<lparr> node_id = N_hands,
       possibleTransitions = [N_vogue_left, N_vogue_right, N_mandala, N_groove_center],
       energyRequirement = 0.5, exitThreshold = 0.3, mechanicalFx = FX_none,
       preferredTransition = CUT, minDuration = 200,
       frameSelector = (\<lambda>rnd pool. random_pick rnd (hands pool)) \<rparr>
   | N_feet \<Rightarrow> \<lparr> node_id = N_feet,
       possibleTransitions = [N_crouch, N_groove_left, N_groove_right],
       energyRequirement = 0.4, exitThreshold = 0.2, mechanicalFx = FX_none,
       preferredTransition = CUT, minDuration = 200,
       frameSelector = (\<lambda>rnd pool. random_pick rnd (feet pool)) \<rparr>
   | N_impact \<Rightarrow> \<lparr> node_id = N_impact,
       possibleTransitions = [N_groove_center, N_crouch, N_mandala],
       energyRequirement = 0.8, exitThreshold = 0.6, mechanicalFx = FX_zoom,
       preferredTransition = CUT, minDuration = 100,
       frameSelector = (\<lambda>rnd pool.
         js_or (random_pick rnd (virtuals pool)) (js_nth (byEnergy pool E_high) 0)) \<rparr>
   | N_mandala \<Rightarrow> \<lparr> node_id = N_mandala,
       possibleTransitions = [N_hands, N_groove_center, N_impact],
       energyRequirement = 0.7, exitThreshold = 0.5, mechanicalFx = FX_mandala,
       preferredTransition = CUT, minDuration = 300,
       frameSelector = (\<lambda>rnd pool.
         js_or (random_pick rnd (mandalas pool)) (js_nth (hands pool) 0)) \<rparr>)"

section \<open>BPM detector\<close>

record BPMDetector =
  beatTimes :: "real list"
  bd_lastBeatTime :: real
  adaptiveThreshold :: real
  energyHistory :: "real list"

definition maxBeats :: nat where "maxBeats = 32"
definition minInterval :: real where "minInterval = 250"
definition maxInterval :: real where "maxInterval = 1500"

definition new_BPMDetector :: BPMDetector where
  "new_BPMDetector =
     \<lparr> beatTimes = [], bd_lastBeatTime = 0, adaptiveThreshold = 0.6, energyHistory = [] \<rparr>"

text \<open>\<^verbatim>\<open>Math.max(...xs)\<close> on a non-empty array (the call is guarded by \<^verbatim>\<open>length > 10\<close>).\<close>

definition list_max :: "real list \<Rightarrow> real" where
  "list_max xs = foldl max (hd xs) (tl xs)"

definition detectBeat :: "real \<Rightarrow> real \<Rightarrow> BPMDetector \<Rightarrow> bool \<times> BPMDetector" where
  "detectBeat b ts d =
     (let eh = push_bounded 60 b (energyHistory d);
          thr = (if length eh > 10
                 then (let avg = reduce_sum eh / real (length eh); mx = list_max eh
                       in avg + (mx - avg) * 0.5)
                 else adaptiveThreshold d);
          d1 = d\<lparr> energyHistory := eh, adaptiveThreshold := thr \<rparr>;
          interval = ts - bd_lastBeatTime d
      in if b > thr \<and> interval > minInterval
         then (True, d1\<lparr> bd_lastBeatTime := ts,
                          beatTimes := push_bounded maxBeats ts (beatTimes d) \<rparr>)
         else (False, d1))"

text \<open>The loop \<^verbatim>\<open>for (let i = 1; i < beatTimes.length; i++)\<close> of \<^verbatim>\<open>calculateBPM\<close>, as
  recursion on the beats left to visit, carrying the previous beat and the intervals
  pushed so far.\<close>

fun collect_intervals :: "real \<Rightarrow> real list \<Rightarrow> real list \<Rightarrow> real list" where
  "collect_intervals prev [] acc = acc"
| "collect_intervals prev (t # ts) acc =
     (let interval = t - prev
      in collect_intervals t ts
           (if interval \<ge> minInterval \<and> interval \<le> maxInterval then acc @ [interval] else acc))"

definition calculateBPM :: "BPMDetector \<Rightarrow> real \<times> real" where
  "calculateBPM d =
     (if length (beatTimes d) < 4 then (120, 0)
      else
        (let intervals = collect_intervals (hd (beatTimes d)) (tl (beatTimes d)) []
         in if length intervals < 3 then (120, 0)
            else
              (let sorted = sort intervals;
                   medianInterval = sorted ! (length sorted div 2);
                   b = of_int (round (60000 / medianInterval));
                   mean = reduce_sum sorted / real (length sorted);
                   variance = foldl (\<lambda>s val. s + (val - mean) ^ 2) 0 sorted
                                / real (length sorted);
                   stdDev = sqrt variance;
                   cv = stdDev / mean;
                   confidence = max 0 (min 1 (1 - cv * 2))
               in (max 60 (min 200 b), confidence))))"

definition BPMDetector_reset :: "BPMDetector \<Rightarrow> BPMDetector" where
  "BPMDetector_reset d =
     d\<lparr> beatTimes := [], bd_lastBeatTime := 0, energyHistory := [], adaptiveThreshold := 0.6 \<rparr>"

section \<open>Transient detector\<close>

record 'n TransientDetector =
  history :: "'n list"
  lastValue :: 'n

definition windowSize :: nat where "windowSize = 8"
definition sensitivity :: real where "sensitivity = 2.0"

definition new_TransientDetector :: "'n js_arith \<Rightarrow> 'n TransientDetector" where
  "new_TransientDetector ar = \<lparr> history = [], lastValue = js_lit ar 0 \<rparr>"

definition detect ::
  "'n js_arith \<Rightarrow> 'n \<Rightarrow> 'n TransientDetector \<Rightarrow> bool \<times> 'n TransientDetector" where
  "detect ar v d =
     (let h = push_bounded windowSize v (history d)
      in if length h < windowSize then (False, \<lparr> history = h, lastValue = v \<rparr>)
         else
           (let prevAvg = js_div ar (reduce_js ar (butlast h))
                            (js_lit ar (real (windowSize - 1)));
                ratio = js_div ar v (js_add ar prevAvg (js_lit ar 0.01));
                instantDelta = js_sub ar v (lastValue d)
            in (js_gt ar ratio (js_lit ar sensitivity) \<and> js_gt ar v (js_lit ar 0.3)
                  \<and> js_gt ar instantDelta (js_lit ar 0.15),
                \<lparr> history = h, lastValue = v \<rparr>)))"

definition TransientDetector_reset ::
  "'n js_arith \<Rightarrow> 'n TransientDetector \<Rightarrow> 'n TransientDetector" where
  "TransientDetector_reset ar d = d\<lparr> history := [], lastValue := js_lit ar 0 \<rparr>"

text \<open>Feeding a list of values to a detector, one call of \<^verbatim>\<open>detect\<close> each, and
  collecting the answers in call order.\<close>

fun detect_all ::
  "'n js_arith \<Rightarrow> 'n list \<Rightarrow> 'n TransientDetector \<Rightarrow> bool list \<times> 'n TransientDetector" where
  "detect_all ar [] d = ([], d)"
| "detect_all ar (v # vs) d =
     (let (r, d1) = detect ar v d; (rs, d2) = detect_all ar vs d1 in (r # rs, d2))"

section \<open>Lookahead buffer\<close>

record AudioLookaheadBuffer =
  buffer :: "AudioSample list"
  bufferSize :: nat
  lookaheadMs :: real
  peakHistory :: "real list"

definition new_AudioLookaheadBuffer :: "real \<Rightarrow> real \<Rightarrow> AudioLookaheadBuffer" where
  "new_AudioLookaheadBuffer ms sampleRate =
     \<lparr> buffer = [], bufferSize = nat \<lceil>(ms / 1000) * sampleRate\<rceil>, lookaheadMs = ms,
       peakHistory = [] \<rparr>"

definition push :: "AudioSample \<Rightarrow> AudioLookaheadBuffer \<Rightarrow> AudioLookaheadBuffer" where
  "push sample b =
     b\<lparr> buffer := push_bounded (bufferSize b) sample (buffer b),
        peakHistory := push_bounded 120 (s_energy sample) (peakHistory b) \<rparr>"

definition detectPeak :: "AudioLookaheadBuffer \<Rightarrow> bool" where
  "detectPeak b =
     (if length (buffer b) < 3 then False
      else
        (let n = length (buffer b);
             prev = s_energy (buffer b ! (n - 3));
             curr = s_energy (buffer b ! (n - 2));
             next = s_energy (buffer b ! (n - 1))
         in curr > prev \<and> curr > next \<and> curr > 0.4))"

definition getCurrent :: "AudioLookaheadBuffer \<Rightarrow> AudioSample option" where
  "getCurrent b = (if length (buffer b) > 0 then Some (buffer b ! (length (buffer b) - 1)) else None)"

definition clear :: "AudioLookaheadBuffer \<Rightarrow> AudioLookaheadBuffer" where
  "clear b = b\<lparr> buffer := [], peakHistory := [] \<rparr>"

section \<open>The engine\<close>

text \<open>The private field \<^verbatim>\<open>graph\<close> is never reassigned: it is \<open>KINETIC_GRAPH\<close> throughout.
  An entry \<^verbatim>\<open>`${nodeId}@${now}`\<close> of the transition history is the pair of its parts.\<close>

record KineticEngine =
  state :: KineticState
  framePool :: KineticFramePool
  audioBuffer :: AudioLookaheadBuffer
  bpm :: jsnum
  beatDuration :: jsnum
  lastBeatTime :: real
  bpmDetector :: BPMDetector
  transientDetector :: "jsnum TransientDetector"
  autoBPM :: bool
  bpmConfidence :: real
  transitionHistory :: "(KineticNodeId \<times> real) list"
  lastPeakDetected :: bool
  lastTransientDetected :: bool

definition empty_pool :: KineticFramePool where
  "empty_pool =
     \<lparr> byEnergy = (\<lambda>_. []), closeups = [], hands = [], feet = [], mandalas = [],
       virtuals = [], acrobatics = [], byDirection = (\<lambda>_. []) \<rparr>"

definition new_KineticEngine :: KineticEngine where
  "new_KineticEngine =
     \<lparr> state = \<lparr> currentNode = N_idle, currentFrame = None, transitionProgress = 1.0,
                 transitionStyle = CUT, sourceFrame = None, beatPos = Fin 0, barCounter = 0,
                 phraseCounter = 0, lastTransitionTime = 0, isLocked = False,
                 lockReleaseTime = 0, sequenceMode = GROOVE \<rparr>,
       framePool = empty_pool,
       audioBuffer = new_AudioLookaheadBuffer 200 60,
       bpm = Fin 120, beatDuration = Fin 500, lastBeatTime = 0,
       bpmDetector = new_BPMDetector,
       transientDetector = new_TransientDetector exact_arith,
       autoBPM = True, bpmConfidence = 0, transitionHistory = [],
       lastPeakDetected = False, lastTransientDetected = False \<rparr>"

definition setBPM :: "jsnum \<Rightarrow> KineticEngine \<Rightarrow> KineticEngine" where
  "setBPM b e =
     (let e1 = e\<lparr> bpm := n_max (Fin 60) (n_min (Fin 200) b) \<rparr>
      in e1\<lparr> beatDuration := n_div (Fin 60000) (bpm e1) \<rparr>)"

text \<open>\<^verbatim>\<open>s.includes(sub)\<close>: \<open>sub\<close> occurs in \<open>s\<close> as a contiguous substring.\<close>

fun js_includes :: "string \<Rightarrow> string \<Rightarrow> bool" where
  "js_includes [] sub = (sub = [])"
| "js_includes (c # cs) sub = (take (length sub) (c # cs) = sub \<or> js_includes cs sub)"

text \<open>The body of the loop \<^verbatim>\<open>for (const frame of frames)\<close> of \<^verbatim>\<open>loadFramePool\<close>.\<close>

definition categorize :: "GeneratedFrame \<Rightarrow> KineticFramePool \<Rightarrow> KineticFramePool" where
  "categorize frame p =
     (let p1 = (case energy frame of
                  Some en \<Rightarrow> p\<lparr> byEnergy := (byEnergy p)(en := byEnergy p en @ [frame]) \<rparr>
                | None \<Rightarrow> p);
          dir = (case direction frame of Some d \<Rightarrow> d | None \<Rightarrow> D_center);
          p2 = p1\<lparr> byDirection := (byDirection p1)(dir := byDirection p1 dir @ [frame]) \<rparr>;
          p3 = (if frame_type frame = Some T_closeup
                then p2\<lparr> closeups := closeups p2 @ [frame] \<rparr>
                else if frame_type frame = Some T_hands
                then (let q = p2\<lparr> hands := hands p2 @ [frame] \<rparr>
                      in if js_includes (pose frame) ''mandala''
                         then q\<lparr> mandalas := mandalas q @ [frame] \<rparr> else q)
                else if frame_type frame = Some T_feet
                then p2\<lparr> feet := feet p2 @ [frame] \<rparr>
                else p2);
          p4 = (if role frame = Some R_alt
                then p3\<lparr> acrobatics := acrobatics p3 @ [frame] \<rparr> else p3)
      in if isVirtual frame then p4\<lparr> virtuals := virtuals p4 @ [frame] \<rparr> else p4)"

definition loadFramePool :: "GeneratedFrame list \<Rightarrow> KineticEngine \<Rightarrow> KineticEngine" where
  "loadFramePool frames e =
     (let p = fold categorize frames empty_pool;
          p1 = (if length (byEnergy p E_low) = 0
                then p\<lparr> byEnergy := (byEnergy p)(E_low := byEnergy p E_mid) \<rparr> else p);
          p2 = (if length (byEnergy p1 E_mid) = 0
                then p1\<lparr> byEnergy := (byEnergy p1)(E_mid := byEnergy p1 E_low) \<rparr> else p1);
          p3 = (if length (byDirection p2 D_center) = 0
                then p2\<lparr> byDirection := (byDirection p2)(D_center := byEnergy p2 E_mid) \<rparr>
                else p2)
      in e\<lparr> framePool := p3 \<rparr>)"

definition setAutoBPM :: "bool \<Rightarrow> KineticEngine \<Rightarrow> KineticEngine" where
  "setAutoBPM enabled e =
     (let e1 = e\<lparr> autoBPM := enabled \<rparr>
      in if enabled then e1\<lparr> bpmDetector := BPMDetector_reset (bpmDetector e1) \<rparr> else e1)"

definition feedAudio :: "real \<Rightarrow> real \<Rightarrow> real \<Rightarrow> real \<Rightarrow> KineticEngine \<Rightarrow> KineticEngine" where
  "feedAudio bassv midv highv now e =
     (let en = bassv * 0.5 + midv * 0.3 + highv * 0.2;
          e1 = e\<lparr> audioBuffer :=
                 push \<lparr> s_bass = bassv, s_mid = midv, s_high = highv, s_energy = en,
                        s_timestamp = now \<rparr> (audioBuffer e) \<rparr>;
          e2 = (if autoBPM e1
                then (let r = detectBeat bassv now (bpmDetector e1);
                          e1a = e1\<lparr> bpmDetector := snd r \<rparr>
                      in if fst r
                         then (let c = calculateBPM (bpmDetector e1a);
                                   e1b = e1a\<lparr> bpmConfidence := snd c \<rparr>
                               in if snd c > 0.5 then setBPM (Fin (fst c)) e1b else e1b)
                         else e1a)
                else e1);
          t = detect exact_arith (Fin (midv + highv)) (transientDetector e2);
          e3 = e2\<lparr> transientDetector := snd t, lastTransientDetected := fst t \<rparr>
      in e3\<lparr> lastPeakDetected := detectPeak (audioBuffer e3) \<rparr>)"

definition getTransitionSpeed :: "TransitionStyle \<Rightarrow> real" where
  "getTransitionSpeed style =
     (case style of CUT \<Rightarrow> 100.0 | MORPH \<Rightarrow> 3.0 | ZOOM_IN \<Rightarrow> 4.0 | SLIDE \<Rightarrow> 6.0
      | SMOOTH \<Rightarrow> 1.5)"

definition shouldTriggerOnBeat :: "real \<Rightarrow> KineticEngine \<Rightarrow> bool" where
  "shouldTriggerOnBeat bassv e =
     (let nearBeat = n_lt (beatPos (state e)) (Fin 0.1) \<or> n_gt (beatPos (state e)) (Fin 0.9);
          strongBass = bassv > 0.6
      in nearBeat \<or> strongBass)"

definition updateSequenceMode :: "real \<Rightarrow> real \<Rightarrow> real \<Rightarrow> KineticEngine \<Rightarrow> KineticEngine" where
  "updateSequenceMode bassv midv highv e =
     (let isDrop = bassv > 0.8;
          isPeak = highv > 0.7;
          isFill = phraseCounter (state e) = 7;
          hasCloseups = length (closeups (framePool e)) > 0;
          hasHands = length (hands (framePool e)) > 0;
          hasFeet = length (feet (framePool e)) > 0;
          m = (if isPeak \<and> hasCloseups then EMOTE
               else if isDrop \<and> hasHands then IMPACT
               else if barCounter (state e) \<ge> 12 \<and> hasFeet then FOOTWORK
               else if isFill then IMPACT
               else GROOVE)
      in e\<lparr> state := (state e)\<lparr> sequenceMode := m \<rparr> \<rparr>)"

definition transitionTo :: "KineticNodeId \<Rightarrow> real \<Rightarrow> real \<Rightarrow> KineticEngine \<Rightarrow> KineticEngine" where
  "transitionTo nodeId now rnd e =
     (let targetNode = KINETIC_GRAPH nodeId
      in case frameSelector targetNode rnd (framePool e) of
           None \<Rightarrow> e
         | Some frame \<Rightarrow>
             (let s = state e;
                  s1 = s\<lparr> sourceFrame := currentFrame s, currentNode := nodeId,
                          currentFrame := Some frame, transitionProgress := 0,
                          transitionStyle := preferredTransition targetNode,
                          lastTransitionTime := now \<rparr>;
                  s2 = (if minDuration targetNode \<ge> 500
                        then s1\<lparr> isLocked := True,
                                 lockReleaseTime := now + minDuration targetNode \<rparr>
                        else s1)
              in e\<lparr> state := s2,
                    transitionHistory := push_bounded 50 (nodeId, now) (transitionHistory e) \<rparr>))"

text \<open>The \<^verbatim>\<open>filter\<close> of \<^verbatim>\<open>attemptTransition\<close>.\<close>

definition validTransitions :: "real \<Rightarrow> KineticNode \<Rightarrow> KineticNodeId list" where
  "validTransitions en node =
     filter (\<lambda>nodeId. en \<ge> energyRequirement (KINETIC_GRAPH nodeId)) (possibleTransitions node)"

text \<open>The \<^verbatim>\<open>switch\<close> of \<^verbatim>\<open>attemptTransition\<close>, entered with a non-empty list \<open>vt\<close>.\<close>

definition selectTarget :: "SequenceMode \<Rightarrow> nat \<Rightarrow> KineticNodeId list \<Rightarrow> KineticNodeId" where
  "selectTarget m bar vt =
     (case m of
        EMOTE \<Rightarrow> if N_closeup \<in> set vt then N_closeup
                 else if N_hands \<in> set vt then N_hands else hd vt
      | IMPACT \<Rightarrow> if N_impact \<in> set vt then N_impact
                  else if N_mandala \<in> set vt then N_mandala
                  else if N_jump \<in> set vt then N_jump else hd vt
      | FOOTWORK \<Rightarrow> if N_feet \<in> set vt then N_feet
                    else if N_crouch \<in> set vt then N_crouch else hd vt
      | GROOVE \<Rightarrow>
          if bar mod 2 = 0
          then (if N_groove_left \<in> set vt then N_groove_left
                else if N_groove_center \<in> set vt then N_groove_center else hd vt)
          else (if N_groove_right \<in> set vt then N_groove_right
                else if N_groove_center \<in> set vt then N_groove_center else hd vt))"

text \<open>The parameters \<^verbatim>\<open>bass\<close>, \<^verbatim>\<open>mid\<close> and \<^verbatim>\<open>high\<close> of \<^verbatim>\<open>attemptTransition\<close> are not read
  by its body.\<close>

definition attemptTransition ::
  "real \<Rightarrow> real \<Rightarrow> real \<Rightarrow> real \<Rightarrow> real \<Rightarrow> real \<Rightarrow> KineticEngine \<Rightarrow> KineticEngine" where
  "attemptTransition en bassv midv highv now rnd e =
     (let cur = KINETIC_GRAPH (currentNode (state e));
          vt = validTransitions en cur
      in if length vt = 0
         then (if en < exitThreshold cur then transitionTo N_idle now rnd e else e)
         else transitionTo (selectTarget (sequenceMode (state e)) (barCounter (state e)) vt)
                now rnd e)"

text \<open>
  \<^verbatim>\<open>update\<close> is one method body in the source; it is split here at its two comments
  into the statements before the buffer is read (\<open>update_clock\<close>: beat position,
  transition progress, lock release) and the final statement (\<open>update_counters\<close>: bar
  and phrase counters). \<^verbatim>\<open>update\<close> returns \<^verbatim>\<open>this.state\<close>; here it returns the engine,
  whose \<open>state\<close> is that value. The result of \<^verbatim>\<open>predictEnergy(200)\<close> is not read by
  \<^verbatim>\<open>update\<close>.
\<close>

definition update_clock :: "real \<Rightarrow> real \<Rightarrow> KineticEngine \<Rightarrow> KineticState" where
  "update_clock deltaTime now e =
     (let s1 = (state e)\<lparr> beatPos := n_div (n_rem (Fin now) (beatDuration e)) (beatDuration e) \<rparr>;
          s2 = (if transitionProgress s1 < 1.0
                then (let p = transitionProgress s1
                                + getTransitionSpeed (transitionStyle s1) * deltaTime
                      in s1\<lparr> transitionProgress := (if p > 1.0 then 1.0 else p) \<rparr>)
                else s1)
      in if isLocked s2 \<and> now \<ge> lockReleaseTime s2 then s2\<lparr> isLocked := False \<rparr> else s2)"

definition update_counters :: "real \<Rightarrow> KineticEngine \<Rightarrow> KineticEngine" where
  "update_counters now e =
     (if n_lt (beatPos (state e)) (Fin 0.1)
          \<and> n_lt (Fin (lastBeatTime e)) (n_sub (Fin now) (n_mul (beatDuration e) (Fin 0.9)))
      then e\<lparr> lastBeatTime := now,
              state := (state e)\<lparr> barCounter := (barCounter (state e) + 1) mod 16,
                                   phraseCounter := (phraseCounter (state e) + 1) mod 8 \<rparr> \<rparr>
      else e)"

definition update :: "real \<Rightarrow> real \<Rightarrow> real \<Rightarrow> KineticEngine \<Rightarrow> KineticEngine" where
  "update deltaTime now rnd e =
     (let e1 = e\<lparr> state := update_clock deltaTime now e \<rparr>
      in case getCurrent (audioBuffer e1) of
           None \<Rightarrow> e1
         | Some current \<Rightarrow>
             (let e2 = updateSequenceMode (s_bass current) (s_mid current) (s_high current) e1;
                  beatTrigger = shouldTriggerOnBeat (s_bass current) e2;
                  e3 = (if beatTrigger \<and> \<not> isLocked (state e2)
                        then (let timeSinceLastTransition = now - lastTransitionTime (state e2);
                                  currentNodeConfig = KINETIC_GRAPH (currentNode (state e2))
                              in if timeSinceLastTransition \<ge> minDuration currentNodeConfig
                                 then attemptTransition (s_energy current) (s_bass current)
                                        (s_mid current) (s_high current) now rnd e2
                                 else e2)
                        else e2)
              in update_counters now e3))"

definition forceState :: "KineticNodeId \<Rightarrow> real \<Rightarrow> real \<Rightarrow> KineticEngine \<Rightarrow> KineticEngine" where
  "forceState nodeId now rnd e = transitionTo nodeId now rnd e"

definition triggerStutter :: "KineticEngine \<Rightarrow> KineticEngine" where
  "triggerStutter e =
     e\<lparr> state := (state e)\<lparr> transitionProgress := 0, transitionStyle := CUT,
                              sourceFrame := currentFrame (state e) \<rparr> \<rparr>"

definition triggerGlitch :: "real \<Rightarrow> KineticEngine \<Rightarrow> KineticEngine" where
  "triggerGlitch rnd e =
     (let highFrames = byEnergy (framePool e) E_high
      in if length highFrames > 0
         then e\<lparr> state := (state e)\<lparr> sourceFrame := currentFrame (state e),
                                       currentFrame := random_pick rnd highFrames,
                                       transitionProgress := 0, transitionStyle := CUT \<rparr> \<rparr>
         else e)"

definition getState :: "KineticEngine \<Rightarrow> KineticState" where
  "getState e = state e"

definition getBPM :: "KineticEngine \<Rightarrow> jsnum" where
  "getBPM e = bpm e"

definition resetDetectors :: "KineticEngine \<Rightarrow> KineticEngine" where
  "resetDetectors e =
     e\<lparr> bpmDetector := BPMDetector_reset (bpmDetector e),
        transientDetector := TransientDetector_reset exact_arith (transientDetector e),
        audioBuffer := clear (audioBuffer e),
        transitionHistory := [],
        bpmConfidence := 0 \<rparr>"

subsection \<open>Calls of the public interface\<close>

text \<open>One constructor for each state-changing method of \<^verbatim>\<open>KineticEngine\<close>, with the clock
  and random readings it makes, and the engine after a sequence of calls.\<close>

datatype Call =
    FeedAudio real real real real
  | Update real real real
  | SetBPM jsnum
  | SetAutoBPM bool
  | LoadFramePool "GeneratedFrame list"
  | ForceState KineticNodeId real real
  | TriggerStutter
  | TriggerGlitch real
  | ResetDetectors

fun apply_call :: "Call \<Rightarrow> KineticEngine \<Rightarrow> KineticEngine" where
  "apply_call (FeedAudio bassv midv highv now) e = feedAudio bassv midv highv now e"
| "apply_call (Update deltaTime now rnd) e = update deltaTime now rnd e"
| "apply_call (SetBPM b) e = setBPM b e"
| "apply_call (SetAutoBPM enabled) e = setAutoBPM enabled e"
| "apply_call (LoadFramePool frames) e = loadFramePool frames e"
| "apply_call (ForceState nodeId now rnd) e = forceState nodeId now rnd e"
| "apply_call TriggerStutter e = triggerStutter e"
| "apply_call (TriggerGlitch rnd) e = triggerGlitch rnd e"
| "apply_call ResetDetectors e = resetDetectors e"

fun run_calls :: "Call list \<Rightarrow> KineticEngine \<Rightarrow> KineticEngine" where
  "run_calls [] e = e"
| "run_calls (c # cs) e = run_calls cs (apply_call c e)"

subsection \<open>The range of the adopted BPM\<close>

definition bpm_in_range :: "jsnum \<Rightarrow> bool" where
  "bpm_in_range x = (case x of Fin b \<Rightarrow> 60 \<le> b \<and> b \<le> 200 | _ \<Rightarrow> False)"

subsection \<open>Calls made while a lock is held\<close>



section \<open>The tempo estimate in the words of the specification\<close>

text \<open>
  These follow the specification's description of \<^verbatim>\<open>calculateBPM\<close>, not the code, and
  serve as the right-hand side of the comparison with \<open>calculateBPM\<close>: the inter-beat
  intervals that lie within 250 ms and 1500 ms, clamping, the coefficient of variation
  (population standard deviation over mean), and the median of a sample (the middle
  value of the ascending sort, or the mean of the two middle values for an even count).
\<close>

definition spec_surviving_intervals :: "real list \<Rightarrow> real list" where
  "spec_surviving_intervals ts =
     filter (\<lambda>d. 250 \<le> d \<and> d \<le> 1500) (map (\<lambda>(a, b). b - a) (zip ts (tl ts)))"

definition spec_clamp :: "real \<Rightarrow> real \<Rightarrow> real \<Rightarrow> real" where
  "spec_clamp x lo hi = (if x < lo then lo else if hi < x then hi else x)"

definition spec_mean :: "real list \<Rightarrow> real" where
  "spec_mean xs = sum_list xs / real (length xs)"

definition spec_coefficientOfVariation :: "real list \<Rightarrow> real" where
  "spec_coefficientOfVariation xs =
     sqrt (sum_list (map (\<lambda>x. (x - spec_mean xs) ^ 2) xs) / real (length xs)) / spec_mean xs"

definition spec_median :: "real list \<Rightarrow> real" where
  "spec_median xs =
     (let s = sort xs; n = length xs
      in if even n then (s ! (n div 2 - 1) + s ! (n div 2)) / 2 else s ! (n div 2))"

section \<open>Fixtures\<close>

text \<open>Concrete frames and call sequences at which the theorems below are evaluated.
  Clock readings are in milliseconds; every random reading is 0.\<close>

definition frame_low :: GeneratedFrame where
  "frame_low = \<lparr> url = ''low.png'', pose = ''low_center_1'', energy = Some E_low,
                  direction = Some D_center, frame_type = Some T_body, role = Some R_base,
                  isVirtual = False \<rparr>"

definition frame_mid :: GeneratedFrame where
  "frame_mid = \<lparr> url = ''mid.png'', pose = ''mid_center_1'', energy = Some E_mid,
                  direction = Some D_center, frame_type = Some T_body, role = Some R_base,
                  isVirtual = False \<rparr>"

definition frame_high :: GeneratedFrame where
  "frame_high = \<lparr> url = ''high.png'', pose = ''high_center_1'', energy = Some E_high,
                   direction = Some D_center, frame_type = Some T_body, role = Some R_base,
                   isVirtual = False \<rparr>"

definition frame_closeup :: GeneratedFrame where
  "frame_closeup = \<lparr> url = ''closeup.png'', pose = ''closeup_1'', energy = Some E_high,
                      direction = Some D_center, frame_type = Some T_closeup,
                      role = Some R_flourish, isVirtual = False \<rparr>"

text \<open>From a new engine with one mid frame: a bass hit at 1000 ms (energy 0.5), a tick at
  1000 ms (idle to groove\_left, bar counter 0 to 1), a tick at 1500 ms (groove\_left to
  groove\_center), then silence fed at 2000 ms.\<close>

definition calls_to_groove_center :: "Call list" where
  "calls_to_groove_center =
     [LoadFramePool [frame_mid], FeedAudio 1 0 0 1000, Update 0.016 1000 0,
      Update 0.016 1500 0, FeedAudio 0 0 0 2000]"


section \<open>Evaluating the arithmetic\<close>

text \<open>The definitions that evaluation of \<open>jsnum\<close> arithmetic on concrete numbers unfolds.\<close>

lemmas exact_arith_defs =
  exact_arith_def reduce_js_def n_sub_def n_lt_def n_max_def n_min_def js_trunc_def


section \<open>Transient detector: when it fires\<close>

lemma detect_snd:
  "snd (detect ar v d) = \<lparr> history = push_bounded windowSize v (history d), lastValue = v \<rparr>"
  by (simp add: detect_def Let_def)

lemma detect_all_snoc:
  "detect_all ar (vs @ [v]) d =
     (fst (detect_all ar vs d) @ [fst (detect ar v (snd (detect_all ar vs d)))],
      snd (detect ar v (snd (detect_all ar vs d))))"
  by (induction vs arbitrary: d) (simp_all add: Let_def split: prod.splits)

lemma push_window:
  "push_bounded 8 v (drop (length vs - 8) vs) = drop (length vs - 7) (vs @ [v])"
proof (cases "length vs \<le> 7")
  case True
  then show ?thesis by (simp add: push_bounded_def)
next
  case False
  then have "Suc (length vs - 8) = length vs - 7" by simp
  then show ?thesis using False
    by (simp add: push_bounded_def drop_Suc[symmetric] tl_drop del: drop_Suc)
qed

lemma detect_all_state:
  "snd (detect_all ar vs (new_TransientDetector ar)) =
     \<lparr> history = drop (length vs - 8) vs,
       lastValue = (if vs = [] then js_lit ar 0 else last vs) \<rparr>"
proof (induction vs rule: rev_induct)
  case Nil
  then show ?case by (simp add: new_TransientDetector_def)
next
  case (snoc v vs)
  then show ?case
    by (simp add: detect_all_snoc detect_snd windowSize_def push_window)
qed

lemma detect_fresh:
  "fst (detect ar v (snd (detect_all ar vs (new_TransientDetector ar)))) \<longleftrightarrow>
     7 \<le> length vs
     \<and> js_gt ar (js_div ar v
                  (js_add ar (js_div ar (reduce_js ar (drop (length vs - 7) vs)) (js_lit ar 7))
                             (js_lit ar 0.01)))
               (js_lit ar 2.0)
     \<and> js_gt ar (js_sub ar v (last vs)) (js_lit ar 0.15)
     \<and> js_gt ar v (js_lit ar 0.3)"
proof -
  let ?d = "snd (detect_all ar vs (new_TransientDetector ar))"
  have h: "push_bounded windowSize v (history ?d) = drop (length vs - 7) (vs @ [v])"
    by (simp only: detect_all_state windowSize_def push_window TransientDetector.simps)
  show ?thesis
  proof (cases "7 \<le> length vs")
    case False
    then show ?thesis
      unfolding detect_def Let_def h by (simp add: windowSize_def)
  next
    case True
    then have ne: "vs \<noteq> []" by auto
    have b: "butlast (drop (length vs - 7) (vs @ [v])) = drop (length vs - 7) vs"
      using True by (simp add: butlast_drop)
    have l: "lastValue ?d = last vs"
      using ne by (simp add: detect_all_state)
    show ?thesis using True
      unfolding detect_def Let_def h b l
      by (auto simp add: windowSize_def sensitivity_def)
  qed
qed

text \<open>
  C7 (as amended). Let \<open>vs\<close> be the samples a fresh detector has seen so far. In
  whatever arithmetic the operations are carried out (for the code: IEEE doubles, where
  a zero divisor gives an infinity), the next call \<^verbatim>\<open>detect(v)\<close> returns true exactly
  when at least 7 samples came before (so this is the 8th call or later), the computed
  quotient of \<open>v\<close> by (computed average of the preceding 7 values, plus 0.01) is greater
  than 2.0, the computed difference of \<open>v\<close> and the previous raw sample is greater than
  0.15, and \<open>v\<close> is greater than 0.3. With exact arithmetic it fires for seven values
  0.1 followed by 0.9, and no call fires on the ramp 0.1, 0.14, ..., 0.9 (21 values,
  step 0.04).
\<close>

theorem detect_fires_iff:
  "(fst (detect ar v (snd (detect_all ar vs (new_TransientDetector ar)))) \<longleftrightarrow>
      7 \<le> length vs
      \<and> js_gt ar (js_div ar v
                   (js_add ar (js_div ar (reduce_js ar (drop (length vs - 7) vs)) (js_lit ar 7))
                              (js_lit ar 0.01)))
                (js_lit ar 2.0)
      \<and> js_gt ar (js_sub ar v (last vs)) (js_lit ar 0.15)
      \<and> js_gt ar v (js_lit ar 0.3))
   \<and> fst (detect exact_arith (Fin 0.9)
        (snd (detect_all exact_arith (map Fin [0.1, 0.1, 0.1, 0.1, 0.1, 0.1, 0.1])
               (new_TransientDetector exact_arith))))
   \<and> fst (detect_all exact_arith (map (\<lambda>i. Fin (0.1 + 0.04 * real i)) [0..<21])
            (new_TransientDetector exact_arith))
       = replicate 21 False"
proof -
  have spike:
    "fst (detect exact_arith (Fin 0.9)
        (snd (detect_all exact_arith (map Fin [0.1, 0.1, 0.1, 0.1, 0.1, 0.1, 0.1])
               (new_TransientDetector exact_arith))))"
    by (simp only: detect_fresh) (simp add: exact_arith_defs)
  have ramp:
    "fst (detect_all exact_arith (map (\<lambda>i. Fin (0.1 + 0.04 * real i)) [0..<21])
            (new_TransientDetector exact_arith))
       = replicate 21 False"
    by (simp add: upt_rec numeral_eq_Suc detect_def Let_def push_bounded_def
          new_TransientDetector_def windowSize_def sensitivity_def exact_arith_defs
          split: prod.splits)
  show ?thesis using detect_fresh [of ar v vs] spike ramp by blast
qed

text \<open>
  C7 as stated fails: after seven samples 0.2 the value 0.41 exceeds twice the average
  of the preceding seven (0.4), exceeds the previous sample by 0.21 and exceeds 0.3, yet
  \<^verbatim>\<open>detect\<close> returns false, because the quotient is taken against the average plus 0.01
  (0.41 / 0.21 is below 2).
\<close>

theorem detect_ratio_gate_counterexample:
  "\<not> fst (detect exact_arith (Fin 0.41)
        (snd (detect_all exact_arith (map Fin [0.2, 0.2, 0.2, 0.2, 0.2, 0.2, 0.2])
               (new_TransientDetector exact_arith))))
   \<and> 2.0 * (sum_list [0.2, 0.2, 0.2, 0.2, 0.2, 0.2, 0.2] / 7) < (0.41 :: real)
   \<and> (0.15 :: real) < 0.41 - last [0.2, 0.2, 0.2, 0.2, 0.2, 0.2, 0.2]
   \<and> (0.3 :: real) < 0.41"
  by (simp only: detect_fresh) (simp add: exact_arith_defs)

section \<open>Lookahead buffer: peak detection\<close>

text \<open>
  C8 (as amended). \<^verbatim>\<open>detectPeak()\<close> returns false whenever fewer than 3 samples are
  buffered; when the buffer ends with the samples \<open>p, c, n\<close> it returns true exactly
  when the energy of \<open>c\<close>, the second-from-last sample, is strictly above the energies
  of \<open>p\<close> and \<open>n\<close> and above 0.4.
\<close>

theorem detectPeak_second_from_last:
  "(length (buffer b) < 3 \<longrightarrow> \<not> detectPeak b)
   \<and> (detectPeak (b\<lparr> buffer := pre @ [p, c, n] \<rparr>) \<longleftrightarrow>
        s_energy p < s_energy c \<and> s_energy n < s_energy c \<and> 0.4 < s_energy c)"
proof -
  have i: "(pre @ [p, c, n]) ! length pre = p"
    by simp
  have j: "(pre @ [p, c, n]) ! Suc (length pre) = c"
    by (simp add: nth_append)
  have k: "(pre @ [p, c, n]) ! Suc (Suc (length pre)) = n"
    by (simp add: nth_append)
  show ?thesis
    by (simp add: detectPeak_def Let_def i j k)
qed

theorem detectPeak_second_from_last_witness:
  "length (buffer (new_AudioLookaheadBuffer 200 60)) < 3
   \<and> \<not> detectPeak (new_AudioLookaheadBuffer 200 60)
   \<and> detectPeak ((new_AudioLookaheadBuffer 200 60)\<lparr> buffer :=
        [] @ [\<lparr> s_bass = 0, s_mid = 0, s_high = 0, s_energy = 0.1, s_timestamp = 0 \<rparr>,
              \<lparr> s_bass = 1, s_mid = 1, s_high = 1, s_energy = 1, s_timestamp = 16 \<rparr>,
              \<lparr> s_bass = 0, s_mid = 0, s_high = 0, s_energy = 0.1, s_timestamp = 32 \<rparr>] \<rparr>)"
  using detectPeak_second_from_last
    [of "new_AudioLookaheadBuffer 200 60" "[]"
        "\<lparr> s_bass = 0, s_mid = 0, s_high = 0, s_energy = 0.1, s_timestamp = 0 \<rparr>"
        "\<lparr> s_bass = 1, s_mid = 1, s_high = 1, s_energy = 1, s_timestamp = 16 \<rparr>"
        "\<lparr> s_bass = 0, s_mid = 0, s_high = 0, s_energy = 0.1, s_timestamp = 32 \<rparr>"]
  by (simp add: new_AudioLookaheadBuffer_def)

text \<open>
  C8 as stated fails: with buffered energies 0.1, 0.2, 0.9, 0.1 the third-from-last
  value 0.2 is below its neighbour 0.9, so it is no local maximum, and
  \<^verbatim>\<open>detectPeak\<close> returns true (for the second-from-last value 0.9).
\<close>

theorem detectPeak_third_from_last_counterexample:
  "detectPeak \<lparr> buffer =
       [\<lparr> s_bass = 0.2, s_mid = 0, s_high = 0, s_energy = 0.1, s_timestamp = 0 \<rparr>,
        \<lparr> s_bass = 0.4, s_mid = 0, s_high = 0, s_energy = 0.2, s_timestamp = 16 \<rparr>,
        \<lparr> s_bass = 1, s_mid = 1, s_high = 1, s_energy = 0.9, s_timestamp = 32 \<rparr>,
        \<lparr> s_bass = 0.2, s_mid = 0, s_high = 0, s_energy = 0.1, s_timestamp = 48 \<rparr>],
       bufferSize = 12, lookaheadMs = 200, peakHistory = [0.1, 0.2, 0.9, 0.1] \<rparr>
   \<and> \<not> (s_energy ([\<lparr> s_bass = 0.2, s_mid = 0, s_high = 0, s_energy = 0.1, s_timestamp = 0 \<rparr>,
        \<lparr> s_bass = 0.4, s_mid = 0, s_high = 0, s_energy = 0.2, s_timestamp = 16 \<rparr>,
        \<lparr> s_bass = 1, s_mid = 1, s_high = 1, s_energy = 0.9, s_timestamp = 32 \<rparr>,
        \<lparr> s_bass = 0.2, s_mid = 0, s_high = 0, s_energy = 0.1, s_timestamp = 48 \<rparr>] ! (4 - 3))
        > s_energy ([\<lparr> s_bass = 0.2, s_mid = 0, s_high = 0, s_energy = 0.1, s_timestamp = 0 \<rparr>,
        \<lparr> s_bass = 0.4, s_mid = 0, s_high = 0, s_energy = 0.2, s_timestamp = 16 \<rparr>,
        \<lparr> s_bass = 1, s_mid = 1, s_high = 1, s_energy = 0.9, s_timestamp = 32 \<rparr>,
        \<lparr> s_bass = 0.2, s_mid = 0, s_high = 0, s_energy = 0.1, s_timestamp = 48 \<rparr>] ! (4 - 2)))"
  by (simp add: detectPeak_def Let_def)

section \<open>Resetting the detectors\<close>

text \<open>
  C10. \<^verbatim>\<open>resetDetectors()\<close> clears the detector-side history only (beat history and
  energy history of the BPM detector, transient window, lookahead buffer and its energy
  history, transition history, BPM confidence). The \<open>KineticState\<close> read by
  \<^verbatim>\<open>getState()\<close>, the adopted BPM read by \<^verbatim>\<open>getBPM()\<close>, the beat duration, the frame pool
  and the remaining engine fields are the same before and after the call.
\<close>

theorem resetDetectors_keeps_state:
  "getState (resetDetectors e) = getState e
   \<and> getBPM (resetDetectors e) = getBPM e
   \<and> beatDuration (resetDetectors e) = beatDuration e
   \<and> lastBeatTime (resetDetectors e) = lastBeatTime e
   \<and> framePool (resetDetectors e) = framePool e
   \<and> autoBPM (resetDetectors e) = autoBPM e
   \<and> lastPeakDetected (resetDetectors e) = lastPeakDetected e
   \<and> lastTransientDetected (resetDetectors e) = lastTransientDetected e
   \<and> beatTimes (bpmDetector (resetDetectors e)) = []
   \<and> energyHistory (bpmDetector (resetDetectors e)) = []
   \<and> history (transientDetector (resetDetectors e)) = []
   \<and> buffer (audioBuffer (resetDetectors e)) = []
   \<and> peakHistory (audioBuffer (resetDetectors e)) = []
   \<and> transitionHistory (resetDetectors e) = []
   \<and> bpmConfidence (resetDetectors e) = 0"
  by (simp add: resetDetectors_def getState_def getBPM_def BPMDetector_reset_def
        TransientDetector_reset_def clear_def)

section \<open>Aborted transitions\<close>

text \<open>
  C6. When frame selection yields no frame, the operation leaves the whole engine, and
  so every field of \<open>KineticState\<close>, unchanged: \<^verbatim>\<open>transitionTo\<close> (and \<^verbatim>\<open>forceState\<close>) when
  the target node's \<^verbatim>\<open>frameSelector\<close> returns nothing, \<^verbatim>\<open>attemptTransition\<close> when the
  selector of the node it picked (or of idle, on the fall-back) returns nothing, and
  \<^verbatim>\<open>triggerGlitch\<close> when the high-energy bucket is empty. The operations are total
  functions without an error result: none of these paths raises.
\<close>

theorem no_frame_aborts:
  "(frameSelector (KINETIC_GRAPH nodeId) rnd (framePool e) = None
      \<longrightarrow> transitionTo nodeId now rnd e = e \<and> forceState nodeId now rnd e = e)
   \<and> (validTransitions en (KINETIC_GRAPH (currentNode (state e))) \<noteq> []
       \<and> frameSelector (KINETIC_GRAPH (selectTarget (sequenceMode (state e)) (barCounter (state e))
             (validTransitions en (KINETIC_GRAPH (currentNode (state e)))))) rnd (framePool e) = None
      \<longrightarrow> attemptTransition en bassv midv highv now rnd e = e)
   \<and> (validTransitions en (KINETIC_GRAPH (currentNode (state e))) = []
       \<and> frameSelector (KINETIC_GRAPH N_idle) rnd (framePool e) = None
      \<longrightarrow> attemptTransition en bassv midv highv now rnd e = e)
   \<and> (byEnergy (framePool e) E_high = [] \<longrightarrow> triggerGlitch rnd e = e)"
  by (simp add: transitionTo_def forceState_def attemptTransition_def triggerGlitch_def Let_def)

theorem no_frame_aborts_witness:
  "frameSelector (KINETIC_GRAPH N_hands) 0 (framePool new_KineticEngine) = None
   \<and> transitionTo N_hands 1000 0 new_KineticEngine = new_KineticEngine
   \<and> forceState N_hands 1000 0 new_KineticEngine = new_KineticEngine
   \<and> validTransitions 0.5 (KINETIC_GRAPH (currentNode (state new_KineticEngine))) \<noteq> []
   \<and> attemptTransition 0.5 1 0 0 1000 0 new_KineticEngine = new_KineticEngine
   \<and> validTransitions 0.1 (KINETIC_GRAPH (currentNode (state new_KineticEngine))) = []
   \<and> attemptTransition 0.1 0.2 0 0 1000 0 new_KineticEngine = new_KineticEngine
   \<and> byEnergy (framePool new_KineticEngine) E_high = []
   \<and> triggerGlitch 0 new_KineticEngine = new_KineticEngine"
  using no_frame_aborts [of N_hands 0 new_KineticEngine 1000 "0.5" 1 0 0]
    no_frame_aborts [of N_hands 0 new_KineticEngine 1000 "0.1" "0.2" 0 0]
  by (simp add: new_KineticEngine_def empty_pool_def KINETIC_GRAPH_def random_pick_def
        js_nth_def js_or_def validTransitions_def selectTarget_def)

section \<open>A tick without audio\<close>

text \<open>
  C5 (as amended). If \<^verbatim>\<open>update(deltaTime)\<close> is called while the lookahead buffer holds no
  sample, nothing outside \<open>KineticState\<close> changes and the returned state agrees with
  the state before the call in every field except three, which the tick has already
  written before it returns: \<open>beatPos\<close> is recomputed from the clock,
  \<open>transitionProgress\<close> advances by speed times \<open>deltaTime\<close> (capped at 1) when it was
  below 1, and \<open>isLocked\<close> is released once \<open>now\<close> has reached \<open>lockReleaseTime\<close>.
\<close>

theorem update_without_sample:
  assumes "getCurrent (audioBuffer e) = None"
  shows "update deltaTime now rnd e = e\<lparr> state := getState (update deltaTime now rnd e) \<rparr>
   \<and> getState (update deltaTime now rnd e) =
       (getState e)\<lparr>
          beatPos := n_div (n_rem (Fin now) (beatDuration e)) (beatDuration e),
          transitionProgress :=
            (if transitionProgress (getState e) < 1
             then min 1 (transitionProgress (getState e)
                          + getTransitionSpeed (transitionStyle (getState e)) * deltaTime)
             else transitionProgress (getState e)),
          isLocked := (isLocked (getState e) \<and> now < lockReleaseTime (getState e)) \<rparr>"
  using assms by (auto simp add: update_def update_clock_def getState_def Let_def min_def)

theorem update_without_sample_witness:
  "getCurrent (audioBuffer new_KineticEngine) = None
   \<and> getState (update 0.016 250 0 new_KineticEngine)
       = (getState new_KineticEngine)\<lparr> beatPos := Fin 0.5 \<rparr>"
proof -
  have h: "getCurrent (audioBuffer new_KineticEngine) = None"
    by (simp add: new_KineticEngine_def new_AudioLookaheadBuffer_def getCurrent_def)
  show ?thesis
    using h update_without_sample [OF h, of "0.016" 250 0]
    by (simp add: new_KineticEngine_def getState_def js_trunc_def)
qed

text \<open>
  C5 as stated fails: on a new engine (no sample fed) at clock 250 ms, with the initial
  beat duration of 500 ms, \<^verbatim>\<open>update\<close> returns a state whose \<open>beatPos\<close> is 0.5, not the
  0 it was before the call.
\<close>

theorem update_without_sample_counterexample:
  "getCurrent (audioBuffer new_KineticEngine) = None
   \<and> beatPos (getState new_KineticEngine) = Fin 0
   \<and> beatPos (getState (update 0.016 250 0 new_KineticEngine)) = Fin 0.5"
  by (simp add: new_KineticEngine_def new_AudioLookaheadBuffer_def getCurrent_def
        update_def update_clock_def getState_def js_trunc_def Let_def)

section \<open>Clamping of inputs\<close>

lemma clamp_bpm_cases:
  "n_max (Fin 60) (n_min (Fin 200) x) =
     (case x of Fin b \<Rightarrow> Fin (max 60 (min 200 b)) | PosInf \<Rightarrow> Fin 200
      | NegInf \<Rightarrow> Fin 60 | NaN \<Rightarrow> NaN)"
  by (cases x) (auto simp add: n_max_def n_min_def n_lt_def)

lemma setBPM_bpm:
  "bpm (setBPM x e) =
     (case x of Fin b \<Rightarrow> Fin (max 60 (min 200 b)) | PosInf \<Rightarrow> Fin 200
      | NegInf \<Rightarrow> Fin 60 | NaN \<Rightarrow> NaN)"
  by (simp add: setBPM_def Let_def clamp_bpm_cases)

lemma setBPM_in_range: "x \<noteq> NaN \<Longrightarrow> bpm_in_range (bpm (setBPM x e))"
  by (cases x) (simp_all add: setBPM_bpm bpm_in_range_def)

lemma transitionTo_other:
  "bpm (transitionTo n now rnd e) = bpm e
   \<and> audioBuffer (transitionTo n now rnd e) = audioBuffer e
   \<and> beatDuration (transitionTo n now rnd e) = beatDuration e
   \<and> framePool (transitionTo n now rnd e) = framePool e
   \<and> lastBeatTime (transitionTo n now rnd e) = lastBeatTime e"
  by (simp add: transitionTo_def Let_def split: option.splits)

lemma attemptTransition_other:
  "bpm (attemptTransition en b m h now rnd e) = bpm e
   \<and> audioBuffer (attemptTransition en b m h now rnd e) = audioBuffer e
   \<and> beatDuration (attemptTransition en b m h now rnd e) = beatDuration e
   \<and> framePool (attemptTransition en b m h now rnd e) = framePool e
   \<and> lastBeatTime (attemptTransition en b m h now rnd e) = lastBeatTime e"
  by (simp add: attemptTransition_def Let_def transitionTo_other)

lemma updateSequenceMode_other:
  "bpm (updateSequenceMode b m h e) = bpm e
   \<and> audioBuffer (updateSequenceMode b m h e) = audioBuffer e
   \<and> beatDuration (updateSequenceMode b m h e) = beatDuration e
   \<and> framePool (updateSequenceMode b m h e) = framePool e
   \<and> lastBeatTime (updateSequenceMode b m h e) = lastBeatTime e"
  by (simp add: updateSequenceMode_def Let_def)

lemma update_other:
  "bpm (update dt now rnd e) = bpm e
   \<and> audioBuffer (update dt now rnd e) = audioBuffer e
   \<and> beatDuration (update dt now rnd e) = beatDuration e
   \<and> framePool (update dt now rnd e) = framePool e"
  unfolding update_def update_counters_def Let_def
  by (simp add: attemptTransition_other updateSequenceMode_other split: option.splits)

lemma feedAudio_in_range:
  "bpm_in_range (bpm e) \<Longrightarrow> bpm_in_range (bpm (feedAudio b m h now e))"
  by (simp add: feedAudio_def Let_def setBPM_in_range)

lemma feedAudio_buffer:
  "audioBuffer (feedAudio b m h now e) =
     push \<lparr> s_bass = b, s_mid = m, s_high = h, s_energy = b * 0.5 + m * 0.3 + h * 0.2,
            s_timestamp = now \<rparr> (audioBuffer e)"
  by (simp add: feedAudio_def Let_def setBPM_def)

lemma feedAudio_bpmDetector:
  "bpmDetector (feedAudio b m h now e) =
     (if autoBPM e then snd (detectBeat b now (bpmDetector e)) else bpmDetector e)"
  by (simp add: feedAudio_def Let_def setBPM_def)

lemma feedAudio_transientDetector:
  "transientDetector (feedAudio b m h now e)
     = snd (detect exact_arith (Fin (m + h)) (transientDetector e))
   \<and> lastTransientDetected (feedAudio b m h now e)
     = fst (detect exact_arith (Fin (m + h)) (transientDetector e))"
  by (simp add: feedAudio_def Let_def setBPM_def)

lemma detectBeat_energyHistory:
  "energyHistory (snd (detectBeat b now d)) = push_bounded 60 b (energyHistory d)"
  by (simp add: detectBeat_def Let_def)

lemma apply_call_bufferSize:
  "bufferSize (audioBuffer (apply_call c e)) = bufferSize (audioBuffer e)"
proof (cases c)
  case (FeedAudio b m h now)
  then show ?thesis by (simp add: feedAudio_buffer push_def)
next
  case (Update dt now rnd)
  then show ?thesis by (simp add: update_other)
next
  case (SetBPM x)
  then show ?thesis by (simp add: setBPM_def Let_def)
next
  case (SetAutoBPM en)
  then show ?thesis by (simp add: setAutoBPM_def Let_def)
next
  case (LoadFramePool fs)
  then show ?thesis by (simp add: loadFramePool_def Let_def)
next
  case (ForceState n now rnd)
  then show ?thesis by (simp add: forceState_def transitionTo_other)
next
  case TriggerStutter
  then show ?thesis by (simp add: triggerStutter_def)
next
  case (TriggerGlitch rnd)
  then show ?thesis by (simp add: triggerGlitch_def Let_def)
next
  case ResetDetectors
  then show ?thesis by (simp add: resetDetectors_def clear_def)
qed

lemma run_calls_bufferSize:
  "bufferSize (audioBuffer (run_calls cs e)) = bufferSize (audioBuffer e)"
  by (induction cs arbitrary: e) (simp_all add: apply_call_bufferSize)

lemma apply_call_in_range:
  assumes "c \<noteq> SetBPM NaN" "bpm_in_range (bpm e)"
  shows "bpm_in_range (bpm (apply_call c e))"
proof (cases c)
  case (FeedAudio b m h now)
  then show ?thesis using assms by (simp add: feedAudio_in_range)
next
  case (Update dt now rnd)
  then show ?thesis using assms by (simp add: update_other)
next
  case (SetBPM x)
  then show ?thesis using assms by (simp add: setBPM_in_range)
next
  case (SetAutoBPM en)
  then show ?thesis using assms by (simp add: setAutoBPM_def Let_def)
next
  case (LoadFramePool fs)
  then show ?thesis using assms by (simp add: loadFramePool_def Let_def)
next
  case (ForceState n now rnd)
  then show ?thesis using assms by (simp add: forceState_def transitionTo_other)
next
  case TriggerStutter
  then show ?thesis using assms by (simp add: triggerStutter_def)
next
  case (TriggerGlitch rnd)
  then show ?thesis using assms by (simp add: triggerGlitch_def Let_def)
next
  case ResetDetectors
  then show ?thesis using assms by (simp add: resetDetectors_def)
qed

lemma run_calls_in_range:
  "\<forall>c \<in> set cs. c \<noteq> SetBPM NaN \<Longrightarrow> bpm_in_range (bpm e)
     \<Longrightarrow> bpm_in_range (bpm (run_calls cs e))"
  by (induction cs arbitrary: e) (simp_all add: apply_call_in_range)

lemma getCurrent_push:
  "0 < bufferSize b \<Longrightarrow> getCurrent (push s b) = Some s"
proof -
  assume n: "0 < bufferSize b"
  have "push_bounded (bufferSize b) s (buffer b) \<noteq> []
        \<and> last (push_bounded (bufferSize b) s (buffer b)) = s"
    using n by (cases "buffer b") (auto simp: push_bounded_def Let_def)
  then have "push_bounded (bufferSize b) s (buffer b) \<noteq> []
        \<and> push_bounded (bufferSize b) s (buffer b)
              ! (length (push_bounded (bufferSize b) s (buffer b)) - 1) = s"
    by (metis last_conv_nth)
  then show ?thesis
    by (simp add: getCurrent_def push_def)
qed

text \<open>
  C9 (as amended). \<^verbatim>\<open>setBPM\<close> clamps every input other than NaN to the range 60 to 200
  before adopting it (Infinity becomes 200, -Infinity becomes 60) and adopts NaN as NaN;
  so after any sequence of calls on a new engine in which \<^verbatim>\<open>setBPM\<close> is never given NaN,
  \<^verbatim>\<open>getBPM()\<close> is within 60 and 200. \<^verbatim>\<open>feedAudio\<close> does not clamp: the sample it stores
  (the one \<^verbatim>\<open>getCurrent\<close> then returns) carries bass, mid and high exactly as passed,
  with energy 0.5 bass + 0.3 mid + 0.2 high computed from them; the BPM detector (when
  auto-BPM is on) is called with bass as passed and records it in its energy history,
  and the transient detector is called with mid + high as passed and records it in its
  window.
\<close>

theorem setBPM_clamps_feedAudio_stores:
  "((\<forall>c \<in> set cs. c \<noteq> SetBPM NaN) \<longrightarrow> bpm_in_range (getBPM (run_calls cs new_KineticEngine)))
   \<and> getBPM (setBPM x e) =
       (case x of Fin b \<Rightarrow> Fin (max 60 (min 200 b)) | PosInf \<Rightarrow> Fin 200
        | NegInf \<Rightarrow> Fin 60 | NaN \<Rightarrow> NaN)
   \<and> getCurrent (audioBuffer (feedAudio bassv midv highv now (run_calls cs new_KineticEngine)))
       = Some \<lparr> s_bass = bassv, s_mid = midv, s_high = highv,
                s_energy = bassv * 0.5 + midv * 0.3 + highv * 0.2, s_timestamp = now \<rparr>
   \<and> bpmDetector (feedAudio bassv midv highv now e)
       = (if autoBPM e then snd (detectBeat bassv now (bpmDetector e)) else bpmDetector e)
   \<and> energyHistory (bpmDetector (feedAudio bassv midv highv now e))
       = (if autoBPM e then push_bounded 60 bassv (energyHistory (bpmDetector e))
          else energyHistory (bpmDetector e))
   \<and> transientDetector (feedAudio bassv midv highv now e)
       = snd (detect exact_arith (Fin (midv + highv)) (transientDetector e))
   \<and> lastTransientDetected (feedAudio bassv midv highv now e)
       = fst (detect exact_arith (Fin (midv + highv)) (transientDetector e))
   \<and> history (transientDetector (feedAudio bassv midv highv now e))
       = push_bounded windowSize (Fin (midv + highv)) (history (transientDetector e))"
proof -
  have r: "(\<forall>c \<in> set cs. c \<noteq> SetBPM NaN)
             \<longrightarrow> bpm_in_range (getBPM (run_calls cs new_KineticEngine))"
  proof
    assume "\<forall>c \<in> set cs. c \<noteq> SetBPM NaN"
    moreover have "bpm_in_range (bpm new_KineticEngine)"
      by (simp add: new_KineticEngine_def bpm_in_range_def)
    ultimately show "bpm_in_range (getBPM (run_calls cs new_KineticEngine))"
      unfolding getBPM_def by (rule run_calls_in_range)
  qed
  have "bufferSize (audioBuffer (run_calls cs new_KineticEngine)) = 12"
    by (simp add: run_calls_bufferSize new_KineticEngine_def new_AudioLookaheadBuffer_def)
  then have g: "getCurrent (audioBuffer (feedAudio bassv midv highv now
                   (run_calls cs new_KineticEngine)))
       = Some \<lparr> s_bass = bassv, s_mid = midv, s_high = highv,
                s_energy = bassv * 0.5 + midv * 0.3 + highv * 0.2, s_timestamp = now \<rparr>"
    by (simp add: feedAudio_buffer getCurrent_push)
  show ?thesis
    using r g
    by (simp add: getBPM_def setBPM_bpm feedAudio_bpmDetector feedAudio_transientDetector
          detectBeat_energyHistory detect_snd)
qed

theorem setBPM_clamps_feedAudio_stores_witness:
  "bpm_in_range (getBPM (run_calls
       [SetBPM (Fin 300), FeedAudio 1 0 0 1000, SetBPM PosInf, Update 0.016 1000 0,
        SetBPM (Fin 20)] new_KineticEngine))"
proof -
  have h: "\<forall>c \<in> set [SetBPM (Fin 300), FeedAudio 1 0 0 1000, SetBPM PosInf,
                         Update 0.016 1000 0, SetBPM (Fin 20)]. c \<noteq> SetBPM NaN"
    by simp
  have "(\<forall>c \<in> set [SetBPM (Fin 300), FeedAudio 1 0 0 1000, SetBPM PosInf,
                         Update 0.016 1000 0, SetBPM (Fin 20)]. c \<noteq> SetBPM NaN)
        \<longrightarrow> bpm_in_range (getBPM (run_calls
               [SetBPM (Fin 300), FeedAudio 1 0 0 1000, SetBPM PosInf, Update 0.016 1000 0,
                SetBPM (Fin 20)] new_KineticEngine))"
    using setBPM_clamps_feedAudio_stores
      [of "[SetBPM (Fin 300), FeedAudio 1 0 0 1000, SetBPM PosInf, Update 0.016 1000 0,
            SetBPM (Fin 20)]"]
    by (rule conjunct1)
  then show ?thesis using h by blast
qed

text \<open>
  C9 as stated fails: \<^verbatim>\<open>feedAudio(2, -1, 0)\<close> on a new engine stores bass 2 and mid -1 in
  the buffer, hands bass 2 to the BPM detector and mid + high = -1 to the transient
  detector; and \<^verbatim>\<open>setBPM(NaN)\<close> leaves \<^verbatim>\<open>getBPM()\<close> at NaN, outside 60 to 200.
\<close>

theorem feedAudio_no_clamp_counterexample:
  "buffer (audioBuffer (feedAudio 2 (- 1) 0 1000 new_KineticEngine))
     = [\<lparr> s_bass = 2, s_mid = - 1, s_high = 0, s_energy = 0.7, s_timestamp = 1000 \<rparr>]
   \<and> energyHistory (bpmDetector (feedAudio 2 (- 1) 0 1000 new_KineticEngine)) = [2]
   \<and> history (transientDetector (feedAudio 2 (- 1) 0 1000 new_KineticEngine)) = [Fin (- 1)]
   \<and> getBPM (setBPM NaN new_KineticEngine) = NaN
   \<and> \<not> bpm_in_range (getBPM (setBPM NaN new_KineticEngine))"
  by (simp add: push_def push_bounded_def new_KineticEngine_def
        new_AudioLookaheadBuffer_def feedAudio_def Let_def detectBeat_def new_BPMDetector_def
        minInterval_def maxBeats_def calculateBPM_def detect_def new_TransientDetector_def
        windowSize_def exact_arith_defs getBPM_def setBPM_def bpm_in_range_def)

section \<open>Frame pool: categorization and back-fill\<close>


lemma categorize_byDirection:
  "byDirection (categorize f p) d =
     byDirection p d @ (if (case direction f of Some x \<Rightarrow> x | None \<Rightarrow> D_center) = d then [f] else [])"
  by (simp add: categorize_def Let_def split: option.splits)


lemma fold_categorize_byDirection:
  "byDirection (fold categorize frames p) d
     = byDirection p d
       @ filter (\<lambda>f. (case direction f of Some x \<Rightarrow> x | None \<Rightarrow> D_center) = d) frames"
  by (induction frames arbitrary: p) (simp_all add: categorize_byDirection)




section \<open>BPM detector: the tempo estimate\<close>

lemma reduce_sum_eq: "reduce_sum xs = sum_list xs"
proof -
  have "foldl (+) a xs = a + sum_list xs" for a :: real
    by (induction xs arbitrary: a) simp_all
  then show ?thesis by (simp add: reduce_sum_def)
qed

lemma collect_intervals_eq:
  "collect_intervals prev ts acc =
     acc @ filter (\<lambda>d. 250 \<le> d \<and> d \<le> 1500) (map (\<lambda>(a, b). b - a) (zip (prev # ts) ts))"
  by (induction ts arbitrary: prev acc) (simp_all add: Let_def minInterval_def maxInterval_def)

lemma collect_intervals_spec:
  "bt \<noteq> [] \<Longrightarrow> collect_intervals (hd bt) (tl bt) [] = spec_surviving_intervals bt"
  by (cases bt) (simp_all add: collect_intervals_eq spec_surviving_intervals_def)

lemma sum_list_map_insort:
  "sum_list (map g (insort x xs)) = (g x :: real) + sum_list (map g xs)"
  by (induction xs) simp_all

lemma sum_list_map_sort: "sum_list (map g (sort xs)) = (sum_list (map g xs) :: real)"
  by (induction xs) (simp_all add: sum_list_map_insort)

lemma sum_list_sort: "sum_list (sort xs) = (sum_list xs :: real)"
  using sum_list_map_sort [of "\<lambda>x. x" xs] by simp

lemma foldl_sum_map:
  "foldl (\<lambda>s val. s + g val) a xs = (a :: real) + sum_list (map g xs)"
  by (induction xs arbitrary: a) simp_all

lemma clamp_eq: "lo \<le> hi \<Longrightarrow> max lo (min hi x) = spec_clamp x lo hi"
  by (simp add: spec_clamp_def max_def min_def)

lemma calculateBPM_eq:
  "calculateBPM d =
     (if length (beatTimes d) < 4 \<or> length (spec_surviving_intervals (beatTimes d)) < 3
      then (120, 0)
      else (spec_clamp (of_int (round (60000 /
                (sort (spec_surviving_intervals (beatTimes d))
                   ! (length (spec_surviving_intervals (beatTimes d)) div 2))))) 60 200,
            spec_clamp (1 - 2 * spec_coefficientOfVariation
                                  (spec_surviving_intervals (beatTimes d))) 0 1))"
proof (cases "length (beatTimes d) < 4")
  case True
  then show ?thesis by (simp add: calculateBPM_def)
next
  case False
  let ?iv = "spec_surviving_intervals (beatTimes d)"
  from False have ne: "beatTimes d \<noteq> []" by auto
  have c: "collect_intervals (hd (beatTimes d)) (tl (beatTimes d)) [] = ?iv"
    by (rule collect_intervals_spec [OF ne])
  have cv: "sqrt (foldl (\<lambda>s val. s + (val - reduce_sum (sort ?iv) / real (length (sort ?iv))) ^ 2)
                    0 (sort ?iv) / real (length (sort ?iv)))
              / (reduce_sum (sort ?iv) / real (length (sort ?iv)))
            = spec_coefficientOfVariation ?iv"
    by (simp add: spec_coefficientOfVariation_def spec_mean_def reduce_sum_eq sum_list_sort
          foldl_sum_map sum_list_map_sort)
  show ?thesis
    using False unfolding calculateBPM_def Let_def c cv
    by (simp add: clamp_eq mult.commute)
qed

lemma lower_middle_le:
  assumes "2 \<le> length xs"
  shows "sort xs ! (length xs div 2 - 1) \<le> sort xs ! (length xs div 2)"
proof -
  have "length xs div 2 < length (sort xs)" using assms by simp
  then show ?thesis
    by (intro sorted_nth_mono) simp_all
qed

text \<open>
  C3 (as amended). \<^verbatim>\<open>calculateBPM()\<close> returns bpm 120 with confidence 0 whenever fewer
  than 4 beat timestamps are recorded, and also whenever fewer than 3 inter-beat
  intervals lie within 250 ms and 1500 ms. Otherwise it returns round(60000 / m) clamped
  to 60..200, where \<open>m\<close> is the entry at index \<open>n div 2\<close> of the ascending sort of the
  \<open>n\<close> surviving intervals, and a confidence of 1 - 2 x (coefficient of variation of
  the surviving intervals) clamped to 0..1. For an odd \<open>n\<close> this \<open>m\<close> is the median;
  for an even \<open>n\<close> it is the upper of the two middle intervals, of which the median is
  the mean, so \<open>m\<close> is at or above the median.
\<close>

theorem calculateBPM_upper_middle:
  "calculateBPM d =
     (if length (beatTimes d) < 4 \<or> length (spec_surviving_intervals (beatTimes d)) < 3
      then (120, 0)
      else (spec_clamp (of_int (round (60000 /
                (sort (spec_surviving_intervals (beatTimes d))
                   ! (length (spec_surviving_intervals (beatTimes d)) div 2))))) 60 200,
            spec_clamp (1 - 2 * spec_coefficientOfVariation
                                  (spec_surviving_intervals (beatTimes d))) 0 1))
   \<and> (odd (length (spec_surviving_intervals (beatTimes d))) \<longrightarrow>
        sort (spec_surviving_intervals (beatTimes d))
          ! (length (spec_surviving_intervals (beatTimes d)) div 2)
        = spec_median (spec_surviving_intervals (beatTimes d)))
   \<and> (even (length (spec_surviving_intervals (beatTimes d)))
        \<and> 3 \<le> length (spec_surviving_intervals (beatTimes d)) \<longrightarrow>
        spec_median (spec_surviving_intervals (beatTimes d))
          = (sort (spec_surviving_intervals (beatTimes d))
               ! (length (spec_surviving_intervals (beatTimes d)) div 2 - 1)
             + sort (spec_surviving_intervals (beatTimes d))
               ! (length (spec_surviving_intervals (beatTimes d)) div 2)) / 2
        \<and> sort (spec_surviving_intervals (beatTimes d))
               ! (length (spec_surviving_intervals (beatTimes d)) div 2 - 1)
          \<le> sort (spec_surviving_intervals (beatTimes d))
               ! (length (spec_surviving_intervals (beatTimes d)) div 2))"
proof -
  let ?iv = "spec_surviving_intervals (beatTimes d)"
  have o: "odd (length ?iv) \<longrightarrow> sort ?iv ! (length ?iv div 2) = spec_median ?iv"
    by (simp add: spec_median_def Let_def)
  have e: "even (length ?iv) \<and> 3 \<le> length ?iv \<longrightarrow>
        spec_median ?iv = (sort ?iv ! (length ?iv div 2 - 1) + sort ?iv ! (length ?iv div 2)) / 2
        \<and> sort ?iv ! (length ?iv div 2 - 1) \<le> sort ?iv ! (length ?iv div 2)"
  proof
    assume a: "even (length ?iv) \<and> 3 \<le> length ?iv"
    then have "2 \<le> length ?iv" by simp
    then have "sort ?iv ! (length ?iv div 2 - 1) \<le> sort ?iv ! (length ?iv div 2)"
      by (rule lower_middle_le)
    then show "spec_median ?iv
          = (sort ?iv ! (length ?iv div 2 - 1) + sort ?iv ! (length ?iv div 2)) / 2
        \<and> sort ?iv ! (length ?iv div 2 - 1) \<le> sort ?iv ! (length ?iv div 2)"
      using a by (simp add: spec_median_def Let_def)
  qed
  show ?thesis using calculateBPM_eq [of d] o e by blast
qed

theorem calculateBPM_upper_middle_witness:
  "odd (length (spec_surviving_intervals [0, 400, 900, 1500]))
   \<and> fst (calculateBPM \<lparr> beatTimes = [0, 400, 900, 1500], bd_lastBeatTime = 1500,
                           adaptiveThreshold = 0.6, energyHistory = [] \<rparr>) = 120
   \<and> spec_median (spec_surviving_intervals [0, 400, 900, 1500]) = 500
   \<and> even (length (spec_surviving_intervals [0, 300, 700, 1200, 1800]))
   \<and> 3 \<le> length (spec_surviving_intervals [0, 300, 700, 1200, 1800])
   \<and> fst (calculateBPM \<lparr> beatTimes = [0, 300, 700, 1200, 1800], bd_lastBeatTime = 1800,
                           adaptiveThreshold = 0.6, energyHistory = [] \<rparr>) = 120
   \<and> spec_median (spec_surviving_intervals [0, 300, 700, 1200, 1800]) = (400 + 500) / 2
   \<and> calculateBPM \<lparr> beatTimes = [0, 500, 1000], bd_lastBeatTime = 1000,
                      adaptiveThreshold = 0.6, energyHistory = [] \<rparr> = (120, 0)"
  using calculateBPM_upper_middle [of "\<lparr> beatTimes = [0, 400, 900, 1500], bd_lastBeatTime = 1500,
                      adaptiveThreshold = 0.6, energyHistory = [] \<rparr>"]
    calculateBPM_upper_middle [of "\<lparr> beatTimes = [0, 300, 700, 1200, 1800],
                      bd_lastBeatTime = 1800, adaptiveThreshold = 0.6, energyHistory = [] \<rparr>"]
    calculateBPM_upper_middle [of "\<lparr> beatTimes = [0, 500, 1000], bd_lastBeatTime = 1000,
                      adaptiveThreshold = 0.6, energyHistory = [] \<rparr>"]
  by (simp add: spec_surviving_intervals_def spec_clamp_def)

text \<open>
  C3 as stated fails for an even number of surviving intervals: for beats at 0, 300,
  700, 1200 and 1800 ms the four intervals 300, 400, 500, 600 survive, their median is
  450 ms, which gives round(60000 / 450) = 133, and \<^verbatim>\<open>calculateBPM\<close> returns 120 (from
  the upper middle interval 500 ms).
\<close>

theorem calculateBPM_median_counterexample:
  "spec_surviving_intervals [0, 300, 700, 1200, 1800] = [300, 400, 500, 600]
   \<and> spec_median (spec_surviving_intervals [0, 300, 700, 1200, 1800]) = 450
   \<and> spec_clamp (of_int (round (60000 /
        spec_median (spec_surviving_intervals [0, 300, 700, 1200, 1800])))) 60 200 = 133
   \<and> fst (calculateBPM \<lparr> beatTimes = [0, 300, 700, 1200, 1800], bd_lastBeatTime = 1800,
                           adaptiveThreshold = 0.6, energyHistory = [] \<rparr>) = 120"
proof -
  have r: "round (400 / 3 :: real) = 133"
    by (rule round_unique) simp_all
  show ?thesis
    by (simp add: calculateBPM_eq spec_surviving_intervals_def spec_median_def spec_clamp_def
          Let_def r)
qed

section \<open>Audio-driven transitions\<close>

lemma transitionTo_node:
  "transitionTo n now rnd e = e \<or> currentNode (state (transitionTo n now rnd e)) = n"
  by (simp add: transitionTo_def Let_def split: option.splits)

lemma selectTarget_mem: "vt \<noteq> [] \<Longrightarrow> selectTarget m bar vt \<in> set vt"
  by (cases m) (simp_all add: selectTarget_def)

lemma validTransitions_mem:
  "n \<in> set (validTransitions en node) \<longleftrightarrow>
     n \<in> set (possibleTransitions node) \<and> energyRequirement (KINETIC_GRAPH n) \<le> en"
  by (auto simp add: validTransitions_def)

lemma idle_requirement: "energyRequirement (KINETIC_GRAPH N_idle) = 0"
  by (simp add: KINETIC_GRAPH_def)

lemma attemptTransition_node:
  "currentNode (state (attemptTransition en b m h now rnd e)) = currentNode (state e)
   \<or> (currentNode (state (attemptTransition en b m h now rnd e))
         \<in> set (possibleTransitions (KINETIC_GRAPH (currentNode (state e))))
       \<and> energyRequirement (KINETIC_GRAPH (currentNode (state (attemptTransition en b m h now rnd e))))
           \<le> en)
   \<or> (currentNode (state (attemptTransition en b m h now rnd e)) = N_idle
       \<and> validTransitions en (KINETIC_GRAPH (currentNode (state e))) = []
       \<and> en < exitThreshold (KINETIC_GRAPH (currentNode (state e)))
       \<and> (en < 0 \<or> N_idle \<notin> set (possibleTransitions (KINETIC_GRAPH (currentNode (state e))))))"
proof (cases "validTransitions en (KINETIC_GRAPH (currentNode (state e))) = []")
  case True
  have "en < 0 \<or> N_idle \<notin> set (possibleTransitions (KINETIC_GRAPH (currentNode (state e))))"
  proof (rule ccontr)
    assume "\<not> ?thesis"
    then have "N_idle \<in> set (validTransitions en (KINETIC_GRAPH (currentNode (state e))))"
      by (simp add: validTransitions_mem idle_requirement)
    then show False using True by simp
  qed
  then show ?thesis
    using True transitionTo_node [of N_idle now rnd e]
    by (auto simp add: attemptTransition_def Let_def)
next
  case False
  let ?t = "selectTarget (sequenceMode (state e)) (barCounter (state e))
              (validTransitions en (KINETIC_GRAPH (currentNode (state e))))"
  have "?t \<in> set (validTransitions en (KINETIC_GRAPH (currentNode (state e))))"
    by (rule selectTarget_mem [OF False])
  then have t: "?t \<in> set (possibleTransitions (KINETIC_GRAPH (currentNode (state e))))
      \<and> energyRequirement (KINETIC_GRAPH ?t) \<le> en"
    by (simp add: validTransitions_mem)
  have a: "attemptTransition en b m h now rnd e = transitionTo ?t now rnd e"
    using False by (simp add: attemptTransition_def Let_def)
  show ?thesis
    using t transitionTo_node [of ?t now rnd e] unfolding a by auto
qed

lemma update_clock_node: "currentNode (update_clock dt now e) = currentNode (state e)"
  by (simp add: update_clock_def Let_def)

lemma updateSequenceMode_node:
  "currentNode (state (updateSequenceMode b m h e)) = currentNode (state e)"
  by (simp add: updateSequenceMode_def Let_def)

lemma update_counters_node:
  "currentNode (state (update_counters now e)) = currentNode (state e)"
  by (simp add: update_counters_def)

lemma updateSequenceMode_buffer:
  "audioBuffer (updateSequenceMode b m h e) = audioBuffer e"
  by (simp add: updateSequenceMode_def Let_def)

text \<open>
  C1 (as amended). Let \<open>N\<close> be the current node before an \<^verbatim>\<open>update\<close> tick and \<open>D\<close> the
  current node of the state it returns. Either \<open>D = N\<close> (no transition), or the buffer
  holds a current sample and one of two cases applies. Chosen among the qualifying
  successors: \<open>D\<close> is a member of \<open>N\<close>'s \<open>possibleTransitions\<close> and the current energy
  is at least \<open>D\<close>'s \<open>energyRequirement\<close>. Fall-back: no successor of \<open>N\<close> qualifies, the
  energy is below \<open>N\<close>'s \<open>exitThreshold\<close>, and \<open>D\<close> is idle; in this case idle is not
  a member of \<open>N\<close>'s \<open>possibleTransitions\<close>, unless the energy is negative.
\<close>

theorem update_transition_edges:
  "currentNode (getState (update dt now rnd e)) = currentNode (getState e)
   \<or> (\<exists>cur. getCurrent (audioBuffer e) = Some cur
        \<and> ((currentNode (getState (update dt now rnd e))
               \<in> set (possibleTransitions (KINETIC_GRAPH (currentNode (getState e))))
             \<and> energyRequirement (KINETIC_GRAPH (currentNode (getState (update dt now rnd e))))
                 \<le> s_energy cur)
          \<or> (currentNode (getState (update dt now rnd e)) = N_idle
              \<and> validTransitions (s_energy cur) (KINETIC_GRAPH (currentNode (getState e))) = []
              \<and> s_energy cur < exitThreshold (KINETIC_GRAPH (currentNode (getState e)))
              \<and> (s_energy cur < 0
                  \<or> N_idle \<notin> set (possibleTransitions (KINETIC_GRAPH (currentNode (getState e))))))))"
proof (cases "getCurrent (audioBuffer e)")
  case None
  then show ?thesis
    by (simp add: update_def getState_def Let_def update_clock_node)
next
  case (Some cur)
  let ?e2 = "updateSequenceMode (s_bass cur) (s_mid cur) (s_high cur)
               (e\<lparr> state := update_clock dt now e \<rparr>)"
  have n2: "currentNode (state ?e2) = currentNode (state e)"
    by (simp add: updateSequenceMode_node update_clock_node)
  have "update dt now rnd e = update_counters now ?e2
        \<or> update dt now rnd e = update_counters now
             (attemptTransition (s_energy cur) (s_bass cur) (s_mid cur) (s_high cur) now rnd ?e2)"
    using Some by (simp add: update_def Let_def)
  then show ?thesis
  proof
    assume "update dt now rnd e = update_counters now ?e2"
    then show ?thesis by (simp add: getState_def update_counters_node n2)
  next
    assume u: "update dt now rnd e = update_counters now
             (attemptTransition (s_energy cur) (s_bass cur) (s_mid cur) (s_high cur) now rnd ?e2)"
    show ?thesis
      using attemptTransition_node [of "s_energy cur" "s_bass cur" "s_mid cur" "s_high cur" now rnd ?e2]
      unfolding u getState_def update_counters_node n2 Some
      by auto
  qed
qed


text \<open>Evaluation of the engine on concrete call sequences unfolds these definitions.\<close>

lemmas engine_defs =
  new_KineticEngine_def empty_pool_def new_AudioLookaheadBuffer_def new_BPMDetector_def
  new_TransientDetector_def loadFramePool_def categorize_def feedAudio_def push_def
  push_bounded_def detectBeat_def calculateBPM_def detect_def detectPeak_def windowSize_def
  minInterval_def maxBeats_def setBPM_def update_def update_clock_def update_counters_def
  getCurrent_def updateSequenceMode_def shouldTriggerOnBeat_def attemptTransition_def
  validTransitions_def selectTarget_def transitionTo_def forceState_def KINETIC_GRAPH_def
  js_or_def js_nth_def random_pick_def getTransitionSpeed_def getState_def Let_def
  exact_arith_defs sensitivity_def
  frame_low_def frame_mid_def frame_high_def frame_closeup_def

text \<open>
  C1 as stated fails for the fall-back: after the calls of \<open>calls_to_groove_center\<close>
  the engine is at groove\_center with current energy 0; the next tick finds no
  qualifying successor, the energy is below the exit threshold 0.3, and the state
  returned has idle as current node, which is not among groove\_center's
  \<open>possibleTransitions\<close>.
\<close>

theorem fallback_leaves_graph_counterexample:
  "currentNode (getState (run_calls calls_to_groove_center new_KineticEngine)) = N_groove_center
   \<and> map s_energy (buffer (audioBuffer (run_calls calls_to_groove_center new_KineticEngine)))
       = [0.5, 0]
   \<and> currentNode (getState (update 0.016 2000 0
         (run_calls calls_to_groove_center new_KineticEngine))) = N_idle
   \<and> N_idle \<notin> set (possibleTransitions (KINETIC_GRAPH N_groove_center))"
  by (simp add: engine_defs calls_to_groove_center_def)

section \<open>The lock\<close>
















end
